theory Spec2Isabelle
  imports Main "HOL-Library.Sublist"
begin

section \<open>LocationStreamer (apiserver/pkg/registry/generic/rest/streamer.go)\<close>

text \<open>
  A shallow embedding of \<^verbatim>\<open>streamer.go\<close>. Go strings are byte strings, so they are
  \<open>string\<close> (a list of 8-bit \<open>char\<close>). A Go \<^verbatim>\<open>error\<close> value is represented by its
  message, a nil error by \<open>None\<close>. A panic is an outcome of its own. The calls to
  \<^verbatim>\<open>klog\<close> only write log lines and are left out.
\<close>

subsection \<open>Values\<close>

datatype error = Error (Message: string)

datatype 'a outcome = Panic string | Return 'a

text \<open>\<^verbatim>\<open>errors.New\<close> always gives a non-nil error carrying the text.\<close>

definition errors_New :: "string \<Rightarrow> error option" where
  "errors_New text = Some (Error text)"

text \<open>A \<^verbatim>\<open>*url.URL\<close> is only ever rendered with \<^verbatim>\<open>String()\<close>, so it is kept as that rendering.\<close>

datatype url = URL (url_String: string)

text \<open>A \<^verbatim>\<open>context.Context\<close> is a value with an identity; a nil context is \<open>None\<close>.\<close>

datatype ctx = Background | Context nat

text \<open>\<^verbatim>\<open>http.Header\<close> is \<^verbatim>\<open>map[string][]string\<close>.\<close>

type_synonym Header = "string \<rightharpoonup> string list"

record Request =
  Method :: string
  Url :: url
  req_Header :: Header
  Ctx :: ctx

text \<open>The body of a response is a handle with an identity (\<^verbatim>\<open>io.ReadCloser\<close>).\<close>

record Response =
  StatusCode :: int
  resp_Header :: Header
  Body :: nat

type_synonym RoundTripper = "Request \<Rightarrow> error + Response"

record Client =
  cl_Transport :: RoundTripper
  CheckRedirect :: "(Request \<Rightarrow> Request list \<Rightarrow> error option) option"
  Timeout :: nat

text \<open>
  \<^verbatim>\<open>HttpResponseChecker\<close> is an interface of this package declared outside this file,
  with the one method \<^verbatim>\<open>Check(resp *http.Response) error\<close>. The method receives the
  response with its body, so besides its verdict it may close that body: the second
  component says whether it did.
\<close>

type_synonym HttpResponseChecker = "Response \<Rightarrow> error option \<times> bool"

record ConfigMap =
  Data :: "string \<rightharpoonup> string"

text \<open>
  A \<^verbatim>\<open>runtime.Object\<close> interface value: nil, a \<^verbatim>\<open>*api.ConfigMap\<close> (a pointer, which
  may itself be nil), or a pointer to some other kind of object.
\<close>

datatype Object = NilObject | ConfigMapPtr "ConfigMap option" | OtherObject string

text \<open>
  Modelled from the spec: the type \<^verbatim>\<open>cmstore.REST\<close> is declared outside this file. Its
  \<^verbatim>\<open>Get\<close> is the Configuration Lookup, \<^verbatim>\<open>get(namespace, name) -> (TenantRecord, error)\<close>.
\<close>

type_synonym REST = "string \<Rightarrow> string \<Rightarrow> error + Object"

record LocationStreamer =
  Location :: "url option"
  Transport :: "RoundTripper option"
  ContentType :: string
  Flush :: bool
  ResponseChecker :: "HttpResponseChecker option"
  RedirectChecker :: "(Request \<Rightarrow> Request list \<Rightarrow> error option) option"
  ConfigMap :: "REST option"

text \<open>The four results of \<^verbatim>\<open>InputStream\<close>, under the names the source gives them.\<close>

record StreamResult =
  stream :: "nat option"
  flush :: bool
  contentType :: string
  err :: "error option"

text \<open>
  What the function does to the outside: the lookups made in the configuration store, the
  requests handed to the HTTP client, and the response bodies that have been closed.
\<close>

record world =
  gets :: "(string \<times> string) list"
  sent :: "(Client \<times> Request) list"
  closed :: "nat set"

text \<open>
  The standard library and the network, which the source calls and this file does not
  define: \<^verbatim>\<open>url.Parse\<close> (inside \<^verbatim>\<open>http.NewRequest\<close>), \<^verbatim>\<open>http.DefaultTransport\<close> and
  \<^verbatim>\<open>(*http.Client).Do\<close>.
\<close>

record env =
  url_Parse :: "string \<Rightarrow> error + url"
  DefaultTransport :: RoundTripper
  client_Do :: "Client \<Rightarrow> Request \<Rightarrow> error + Response"

subsection \<open>Constants\<close>

definition VirtualClusterNameHeaderKey :: string where
  "VirtualClusterNameHeaderKey = ''virtualcluster-name''"

definition VirtualClusterNameConfigMapDataKey :: string where
  "VirtualClusterNameConfigMapDataKey = ''VirtualClusterName''"

definition VirtualClusterInfoConfigMapNS :: string where
  "VirtualClusterInfoConfigMapNS = ''kube-system''"

definition VirtualClusterInfoConfigMapName :: string where
  "VirtualClusterInfoConfigMapName = ''virtualcluster-info''"

subsection \<open>Header keys (net/textproto)\<close>

definition isLowerByte :: "char \<Rightarrow> bool" where
  "isLowerByte c \<longleftrightarrow> (97::nat) \<le> of_char c \<and> of_char c \<le> (122::nat)"

definition isUpperByte :: "char \<Rightarrow> bool" where
  "isUpperByte c \<longleftrightarrow> (65::nat) \<le> of_char c \<and> of_char c \<le> (90::nat)"

definition isDigitByte :: "char \<Rightarrow> bool" where
  "isDigitByte c \<longleftrightarrow> (48::nat) \<le> of_char c \<and> of_char c \<le> (57::nat)"

text \<open>The token bytes of RFC 7230: letters, digits and \<^verbatim>\<open>!#$%&'*+-.^_`|~\<close>.\<close>

definition validHeaderFieldByte :: "char \<Rightarrow> bool" where
  "validHeaderFieldByte c \<longleftrightarrow>
     isLowerByte c \<or> isUpperByte c \<or> isDigitByte c \<or>
     c \<in> set [CHR 0x21, CHR 0x23, CHR 0x24, CHR 0x25, CHR 0x26, CHR 0x27, CHR 0x2A, CHR 0x2B,
               CHR 0x2D, CHR 0x2E, CHR 0x5E, CHR 0x5F, CHR 0x60, CHR 0x7C, CHR 0x7E]"

text \<open>
  The loop of \<^verbatim>\<open>canonicalMIMEHeaderKey\<close>: upper case for the first letter and after each
  dash, lower case elsewhere. \<open>upper\<close> is the loop's flag.
\<close>

fun canonicalize :: "bool \<Rightarrow> string \<Rightarrow> string" where
  "canonicalize upper [] = []"
| "canonicalize upper (c # cs) =
     (let c' = (if upper \<and> isLowerByte c then char_of (of_char c - (32::nat))
                else if \<not> upper \<and> isUpperByte c then char_of (of_char c + (32::nat))
                else c)
      in c' # canonicalize (c' = CHR 0x2D) cs)"

text \<open>A key with a byte that is not a token byte is returned unchanged.\<close>

definition CanonicalMIMEHeaderKey :: "string \<Rightarrow> string" where
  "CanonicalMIMEHeaderKey s = (if list_all validHeaderFieldByte s then canonicalize True s else s)"

definition Header_Add :: "Header \<Rightarrow> string \<Rightarrow> string \<Rightarrow> Header" where
  "Header_Add h key v =
     (let k = CanonicalMIMEHeaderKey key
      in h(k \<mapsto> (case h k of None \<Rightarrow> [] | Some vs \<Rightarrow> vs) @ [v]))"

definition Header_Get :: "Header \<Rightarrow> string \<Rightarrow> string" where
  "Header_Get h key =
     (case h (CanonicalMIMEHeaderKey key) of
        None \<Rightarrow> []
      | Some [] \<Rightarrow> []
      | Some (v # _) \<Rightarrow> v)"

subsection \<open>strings.SplitN and strings.TrimSpace\<close>

text \<open>\<^verbatim>\<open>strings.Index\<close>: the first position at which \<open>sep\<close> occurs, if any.\<close>

fun Index :: "string \<Rightarrow> string \<Rightarrow> nat option" where
  "Index [] sep = (if sep = [] then Some 0 else None)"
| "Index (c # cs) sep =
     (if prefix sep (c # cs) then Some 0 else map_option Suc (Index cs sep))"

text \<open>
  The loop of \<^verbatim>\<open>genSplit\<close> for a non-empty separator; \<open>k\<close> is the number of cuts still
  allowed (\<open>n - 1\<close> at the start).
\<close>

fun genSplit :: "string \<Rightarrow> string \<Rightarrow> nat \<Rightarrow> string list" where
  "genSplit s sep 0 = [s]"
| "genSplit s sep (Suc k) =
     (case Index s sep of
        None \<Rightarrow> [s]
      | Some m \<Rightarrow> take m s # genSplit (drop (m + length sep) s) sep k)"

text \<open>
  \<^verbatim>\<open>strings.SplitN(s, sep, n)\<close> for \<open>n \<ge> 0\<close> and a non-empty \<open>sep\<close>, which is how the
  source calls it (\<open>sep\<close> is \<^verbatim>\<open>";"\<close> and \<open>n\<close> is 2).
\<close>

definition SplitN :: "string \<Rightarrow> string \<Rightarrow> nat \<Rightarrow> string list" where
  "SplitN s sep n = (if n = 0 then [] else genSplit s sep (n - 1))"

text \<open>
  The runes for which \<^verbatim>\<open>unicode.IsSpace\<close> holds, each as its UTF-8 encoding: U+0009 to
  U+000D, U+0020, U+0085, U+00A0, U+1680, U+2000 to U+200A, U+2028, U+2029, U+202F,
  U+205F, U+3000. Decoding accepts only the shortest encoding of a rune, so a string
  starts (ends) with a white-space rune exactly when it starts (ends) with one of these.
\<close>

definition spaceRunes :: "string list" where
  "spaceRunes =
     [[CHR 0x09], [CHR 0x0A], [CHR 0x0B], [CHR 0x0C], [CHR 0x0D], [CHR 0x20],
      [CHR 0xC2, CHR 0x85], [CHR 0xC2, CHR 0xA0],
      [CHR 0xE1, CHR 0x9A, CHR 0x80],
      [CHR 0xE2, CHR 0x80, CHR 0x80], [CHR 0xE2, CHR 0x80, CHR 0x81],
      [CHR 0xE2, CHR 0x80, CHR 0x82], [CHR 0xE2, CHR 0x80, CHR 0x83],
      [CHR 0xE2, CHR 0x80, CHR 0x84], [CHR 0xE2, CHR 0x80, CHR 0x85],
      [CHR 0xE2, CHR 0x80, CHR 0x86], [CHR 0xE2, CHR 0x80, CHR 0x87],
      [CHR 0xE2, CHR 0x80, CHR 0x88], [CHR 0xE2, CHR 0x80, CHR 0x89],
      [CHR 0xE2, CHR 0x80, CHR 0x8A],
      [CHR 0xE2, CHR 0x80, CHR 0xA8], [CHR 0xE2, CHR 0x80, CHR 0xA9],
      [CHR 0xE2, CHR 0x80, CHR 0xAF], [CHR 0xE2, CHR 0x81, CHR 0x9F],
      [CHR 0xE3, CHR 0x80, CHR 0x80]]"

text \<open>The width in bytes of the white-space rune a string starts with; 0 if it starts with none.\<close>

definition leadingSpace :: "string \<Rightarrow> nat" where
  "leadingSpace s = (case find (\<lambda>r. prefix r s) spaceRunes of None \<Rightarrow> 0 | Some r \<Rightarrow> length r)"

definition trailingSpace :: "string \<Rightarrow> nat" where
  "trailingSpace s = (case find (\<lambda>r. suffix r s) spaceRunes of None \<Rightarrow> 0 | Some r \<Rightarrow> length r)"

function TrimLeft :: "string \<Rightarrow> string" where
  "TrimLeft s = (let n = leadingSpace s in if n = 0 then s else TrimLeft (drop n s))"
  by pat_completeness auto
termination
proof (relation "measure length", goal_cases)
  case 1
  show ?case by simp
next
  case (2 s n)
  have "leadingSpace s \<le> length s"
    unfolding leadingSpace_def
    by (auto split: option.splits dest!: find_Some_iff[THEN iffD1] simp: prefix_def)
  with 2 show ?case by auto
qed

function TrimRight :: "string \<Rightarrow> string" where
  "TrimRight s =
     (let n = trailingSpace s in if n = 0 then s else TrimRight (take (length s - n) s))"
  by pat_completeness auto
termination
proof (relation "measure length", goal_cases)
  case 1
  show ?case by simp
next
  case (2 s n)
  have "trailingSpace s \<le> length s"
    unfolding trailingSpace_def
    by (auto split: option.splits dest!: find_Some_iff[THEN iffD1] simp: suffix_def)
  with 2 show ?case by auto
qed

declare TrimLeft.simps [simp del] TrimRight.simps [simp del]

text \<open>\<^verbatim>\<open>strings.TrimSpace\<close>: leading white space is cut first, then trailing white space.\<close>

definition TrimSpace :: "string \<Rightarrow> string" where
  "TrimSpace s = TrimRight (TrimLeft s)"

subsection \<open>net/http: NewRequest and WithContext\<close>

definition validMethod :: "string \<Rightarrow> bool" where
  "validMethod method \<longleftrightarrow> method \<noteq> [] \<and> list_all validHeaderFieldByte method"

text \<open>
  \<^verbatim>\<open>http.NewRequest(method, url, nil)\<close>: an empty method means GET, the method must be a
  token, the URL must parse; the new request has an empty header and the background
  context.
\<close>

definition NewRequest :: "env \<Rightarrow> string \<Rightarrow> string \<Rightarrow> error + Request" where
  "NewRequest e method u =
     (let method = (if method = [] then ''GET'' else method) in
      if \<not> validMethod method
      then Inl (Error (''net/http: invalid method '' @ [CHR 0x22] @ method @ [CHR 0x22]))
      else (case url_Parse e u of
              Inl x \<Rightarrow> Inl x
            | Inr parsed \<Rightarrow>
                Inr \<lparr>Method = method, Url = parsed, req_Header = Map.empty, Ctx = Background\<rparr>))"

text \<open>\<^verbatim>\<open>(*Request).WithContext\<close> panics on a nil context.\<close>

definition WithContext :: "Request \<Rightarrow> ctx option \<Rightarrow> Request outcome" where
  "WithContext req c =
     (case c of
        None \<Rightarrow> Panic ''nil context''
      | Some c' \<Rightarrow> Return (req\<lparr>Ctx := c'\<rparr>))"

subsection \<open>The object interface\<close>

datatype ObjectKind = EmptyObjectKind | OtherObjectKind string

definition GetObjectKind :: "LocationStreamer \<Rightarrow> ObjectKind" where
  "GetObjectKind obj = EmptyObjectKind"

definition DeepCopyObject :: "LocationStreamer \<Rightarrow> Object outcome" where
  "DeepCopyObject obj = Panic ''rest.LocationStreamer does not implement DeepCopyObject''"

subsection \<open>getVirtualClusterName\<close>

text \<open>
  The store is reached through the pointer \<^verbatim>\<open>s.ConfigMap\<close>; with a nil pointer the call
  dereferences nil and panics. Every call that reaches the store is recorded in \<open>gets\<close>.
\<close>

definition getVirtualClusterName :: "LocationStreamer \<Rightarrow> world \<Rightarrow> string outcome \<times> world" where
  "getVirtualClusterName s w =
     (case ConfigMap s of
        None \<Rightarrow> (Panic ''runtime error: invalid memory address or nil pointer dereference'', w)
      | Some store \<Rightarrow>
          (let w' = w\<lparr>gets := gets w @
                       [(VirtualClusterInfoConfigMapNS, VirtualClusterInfoConfigMapName)]\<rparr>
           in case store VirtualClusterInfoConfigMapNS VirtualClusterInfoConfigMapName of
                Inl x \<Rightarrow> (Return [], w')
              | Inr obj \<Rightarrow>
                  (case obj of
                     ConfigMapPtr p \<Rightarrow>
                       (case p of
                          None \<Rightarrow>
                            (Panic ''runtime error: invalid memory address or nil pointer dereference'', w')
                        | Some cm \<Rightarrow>
                            (case Data cm VirtualClusterNameConfigMapDataKey of
                               None \<Rightarrow> (Return [], w')
                             | Some vcName \<Rightarrow> (Return vcName, w')))
                   | _ \<Rightarrow> (Return [], w'))))"

subsection \<open>InputStream\<close>

text \<open>\<^verbatim>\<open>fmt.Errorf("failed to construct request for %s, got %v", ...)\<close>\<close>

definition construct_error :: "string \<Rightarrow> error \<Rightarrow> error" where
  "construct_error loc x =
     Error (''failed to construct request for '' @ loc @ '', got '' @ Message x)"

definition no_stream :: "error option \<Rightarrow> StreamResult" where
  "no_stream x = \<lparr>stream = None, flush = False, contentType = [], err = x\<rparr>"

definition InputStream ::
  "env \<Rightarrow> LocationStreamer \<Rightarrow> ctx option \<Rightarrow> world \<Rightarrow> StreamResult outcome \<times> world" where
  "InputStream e s c w =
     (case Location s of
        None \<Rightarrow> (Return (no_stream None), w)
      | Some loc \<Rightarrow>
          (let transport = (case Transport s of None \<Rightarrow> DefaultTransport e | Some t \<Rightarrow> t);
               client = \<lparr>cl_Transport = transport, CheckRedirect = RedirectChecker s,
                         Timeout = 0\<rparr>
           in case NewRequest e ''GET'' (url_String loc) of
                Inl x \<Rightarrow> (Return (no_stream (Some (construct_error (url_String loc) x))), w)
              | Inr req0 \<Rightarrow>
                  (case WithContext req0 c of
                     Panic msg \<Rightarrow> (Panic msg, w)
                   | Return req1 \<Rightarrow>
                       (case getVirtualClusterName s w of
                          (Panic msg, w1) \<Rightarrow> (Panic msg, w1)
                        | (Return vcName, w1) \<Rightarrow>
                            (let req = req1\<lparr>req_Header :=
                                   Header_Add (req_Header req1) VirtualClusterNameHeaderKey vcName\<rparr>;
                                 w2 = w1\<lparr>sent := sent w1 @ [(client, req)]\<rparr>
                             in case client_Do e client req of
                                  Inl x \<Rightarrow> (Return (no_stream (Some x)), w2)
                                | Inr resp \<Rightarrow>
                                    (let (verdict, shut) =
                                           (case ResponseChecker s of
                                              None \<Rightarrow> (None, False)
                                            | Some checker \<Rightarrow> checker resp);
                                         w3 = (if shut
                                               then w2\<lparr>closed := insert (Body resp) (closed w2)\<rparr>
                                               else w2)
                                     in case verdict of
                                          Some x \<Rightarrow> (Return (no_stream (Some x)), w3)
                                        | None \<Rightarrow>
                                            (let ct = ContentType s;
                                                 ct' =
                                                   (if length ct = 0
                                                    then (let h = Header_Get (resp_Header resp) ''Content-Type''
                                                          in if length h > 0
                                                             then (case SplitN h '';'' 2 of
                                                                     [] \<Rightarrow> Panic ''runtime error: index out of range [0] with length 0''
                                                                   | part # _ \<Rightarrow> Return (TrimSpace part))
                                                             else Return h)
                                                    else Return ct)
                                             in case ct' of
                                                  Panic msg \<Rightarrow> (Panic msg, w3)
                                                | Return t \<Rightarrow>
                                                    (Return \<lparr>stream = Some (Body resp), flush = Flush s,
                                                              contentType = t, err = None\<rparr>, w3))))))))"

subsection \<open>PreventRedirects\<close>

definition PreventRedirects :: "Request \<Rightarrow> Request list \<Rightarrow> error option" where
  "PreventRedirects req via = errors_New ''redirects forbidden''"

subsection \<open>net/http: the client and its redirect policy\<close>

text \<open>
  \<^verbatim>\<open>(*http.Client).Do\<close> belongs to the standard library. What follows is its redirect loop
  (\<^verbatim>\<open>Client.do\<close>, \<^verbatim>\<open>redirectBehavior\<close>, \<^verbatim>\<open>checkRedirect\<close> in net/http's client.go) for
  requests without a body, which is all \<open>InputStream\<close> sends. The client returns, next to
  its result, the list \<^verbatim>\<open>reqs\<close> of the requests it issued on the transport, one per hop.
  It closes the body of a response it does not return; that is not recorded here. The
  basic-auth header that \<^verbatim>\<open>send\<close> derives from a URL's user information is left out, the
  URL being opaque, and so is the deadline of a client with a timeout (\<open>InputStream\<close>
  builds its client without one). The loop need not end: a policy may allow every hop of
  an endless chain of redirects, and then the client returns nothing.
\<close>

definition ErrUseLastResponse :: error where
  "ErrUseLastResponse = Error ''net/http: use last response''"

definition defaultCheckRedirect :: "Request \<Rightarrow> Request list \<Rightarrow> error option" where
  "defaultCheckRedirect req via =
     (if 10 \<le> length via then errors_New ''stopped after 10 redirects'' else None)"

definition checkRedirect :: "Client \<Rightarrow> Request \<Rightarrow> Request list \<Rightarrow> error option" where
  "checkRedirect c req via =
     (case CheckRedirect c of
        None \<Rightarrow> defaultCheckRedirect req via
      | Some fn \<Rightarrow> fn req via)"

text \<open>The method of the next hop, and whether the response asks for one.\<close>

definition redirectBehavior :: "string \<Rightarrow> Response \<Rightarrow> string \<times> bool" where
  "redirectBehavior reqMethod resp =
     (if StatusCode resp \<in> {301, 302, 303}
      then (if reqMethod \<noteq> ''GET'' \<and> reqMethod \<noteq> ''HEAD'' then ''GET'' else reqMethod, True)
      else if StatusCode resp \<in> {307, 308}
      then (reqMethod, Header_Get (resp_Header resp) ''Location'' \<noteq> [])
      else ([], False))"

definition toLowerByte :: "char \<Rightarrow> char" where
  "toLowerByte b = (if isUpperByte b then char_of (of_char b + (32::nat)) else b)"

definition urlErrorOp :: "string \<Rightarrow> string" where
  "urlErrorOp method =
     (if method = [] then ''Get'' else take 1 method @ map toLowerByte (drop 1 method))"

text \<open>
  The message of a \<^verbatim>\<open>*url.Error\<close>: operation, quoted URL, and the error it wraps (the
  quoting is that of a string without characters to escape).
\<close>

definition url_Error :: "string \<Rightarrow> string \<Rightarrow> error \<Rightarrow> error" where
  "url_Error op u x = Error (op @ '' '' @ [CHR 0x22] @ u @ [CHR 0x22] @ '': '' @ Message x)"

function decimal :: "nat \<Rightarrow> string" where
  "decimal n =
     (if n < 10 then [char_of (48 + n)] else decimal (n div 10) @ [char_of (48 + n mod 10)])"
  by pat_completeness auto
termination
  by (relation "measure id") auto

definition Itoa :: "int \<Rightarrow> string" where
  "Itoa i = (if i < 0 then ''-'' @ decimal (nat (- i)) else decimal (nat i))"

text \<open>
  What the loop takes from elsewhere when it builds the request of the next hop: the
  Location resolved against the URL of the request (\<^verbatim>\<open>(*url.URL).Parse\<close>), and the header of
  the new request (that of the first request as far as it is copied, and the referer).
\<close>

record hops =
  resolve :: "url \<Rightarrow> string \<Rightarrow> error + url"
  hop_Header :: "Request list \<Rightarrow> url \<Rightarrow> Header"

partial_function (option) do_loop ::
  "hops \<Rightarrow> Client \<Rightarrow> Request list \<Rightarrow> Request \<Rightarrow> ((error + Response) \<times> Request list) option"
  where
  "do_loop H c reqs req =
     (let reqs' = reqs @ [req];
          op = urlErrorOp (Method (hd reqs'))
      in case cl_Transport c req of
           Inl x \<Rightarrow> Some (Inl (url_Error op (url_String (Url req)) x), reqs')
         | Inr resp \<Rightarrow>
             (case redirectBehavior (Method req) resp of
                (redirectMethod, shouldRedirect) \<Rightarrow>
                  if \<not> shouldRedirect then Some (Inr resp, reqs')
                  else
                    (let loc = Header_Get (resp_Header resp) ''Location''
                     in if loc = []
                        then Some (Inl (url_Error op (url_String (Url req))
                                     (Error (Itoa (StatusCode resp) @
                                             '' response missing Location header''))), reqs')
                        else
                          (case resolve H (Url req) loc of
                             Inl x \<Rightarrow>
                               Some (Inl (url_Error op (url_String (Url req))
                                       (Error (''failed to parse Location header '' @
                                               [CHR 0x22] @ loc @ [CHR 0x22] @ '': '' @
                                               Message x))), reqs')
                           | Inr u \<Rightarrow>
                               (let next = \<lparr>Method = redirectMethod, Url = u,
                                            req_Header = hop_Header H reqs' u,
                                            Ctx = Ctx (hd reqs')\<rparr>
                                in case checkRedirect c next reqs' of
                                     None \<Rightarrow> do_loop H c reqs' next
                                   | Some x \<Rightarrow>
                                       if x = ErrUseLastResponse then Some (Inr resp, reqs')
                                       else Some (Inl (url_Error op loc x), reqs'))))))"

definition Client_Do ::
  "hops \<Rightarrow> Client \<Rightarrow> Request \<Rightarrow> ((error + Response) \<times> Request list) option" where
  "Client_Do H c req = do_loop H c [] req"

text \<open>
  An environment whose client is the one of net/http: whenever that client returns, the
  environment's \<open>client_Do\<close> gives its result.
\<close>

definition net_http :: "hops \<Rightarrow> env \<Rightarrow> bool" where
  "net_http H e \<longleftrightarrow>
     (\<forall>c req res reqs. Client_Do H c req = Some (res, reqs) \<longrightarrow> client_Do e c req = res)"

subsection \<open>The content type as the specification words it\<close>

text \<open>
  White space is Unicode's: the code points with the property White_Space, which in a
  Go string stand in UTF-8 (all of them are below U+10000, so three bytes at most).
\<close>

definition utf8 :: "nat \<Rightarrow> string" where
  "utf8 n =
     (if n < 0x80 then [char_of n]
      else if n < 0x800 then [char_of (0xC0 + n div 0x40), char_of (0x80 + n mod 0x40)]
      else [char_of (0xE0 + n div 0x1000), char_of (0x80 + n div 0x40 mod 0x40),
            char_of (0x80 + n mod 0x40)])"

definition White_Space :: "nat list" where
  "White_Space =
     [0x09, 0x0A, 0x0B, 0x0C, 0x0D, 0x20, 0x85, 0xA0, 0x1680,
      0x2000, 0x2001, 0x2002, 0x2003, 0x2004, 0x2005, 0x2006, 0x2007, 0x2008, 0x2009, 0x200A,
      0x2028, 0x2029, 0x202F, 0x205F, 0x3000]"

definition white_runes :: "string list" where
  "white_runes = map utf8 White_Space"

text \<open>A string that consists of white space only.\<close>

inductive white :: "string \<Rightarrow> bool" where
  white_Nil: "white []"
| white_rune: "r \<in> set white_runes \<Longrightarrow> white s \<Longrightarrow> white (r @ s)"

definition begins_white :: "string \<Rightarrow> bool" where
  "begins_white t \<longleftrightarrow> (\<exists>r \<in> set white_runes. prefix r t)"

definition ends_white :: "string \<Rightarrow> bool" where
  "ends_white t \<longleftrightarrow> (\<exists>r \<in> set white_runes. suffix r t)"

text \<open>
  \<open>t\<close> is \<open>s\<close> trimmed of surrounding white space: \<open>s\<close> is \<open>t\<close> with white space before and
  after it, and \<open>t\<close> neither begins nor ends with white space.
\<close>

definition trimmed :: "string \<Rightarrow> string \<Rightarrow> bool" where
  "trimmed s t \<longleftrightarrow>
     (\<exists>l r. s = l @ t @ r \<and> white l \<and> white r) \<and> \<not> begins_white t \<and> \<not> ends_white t"

text \<open>
  \<open>t\<close> is the content type of the specification: an explicit content type is used
  verbatim. Otherwise the response's "Content-Type" header is read: if present, the
  portion before the first ";" trimmed of surrounding white space; if absent, the empty
  string.
\<close>

definition spec_contentType :: "string \<Rightarrow> Header \<Rightarrow> string \<Rightarrow> bool" where
  "spec_contentType explicit hdr t \<longleftrightarrow>
     (if explicit \<noteq> [] then t = explicit
      else (case hdr ''Content-Type'' of
              None \<Rightarrow> t = []
            | Some [] \<Rightarrow> t = []
            | Some (v # _) \<Rightarrow> trimmed (takeWhile (\<lambda>b. b \<noteq> CHR '';'') v) t))"

text \<open>Bytes of UTF-8: a continuation byte, and the width a first byte announces.\<close>

definition continuation :: "char \<Rightarrow> bool" where
  "continuation b \<longleftrightarrow> (128::nat) \<le> of_char b \<and> of_char b < (192::nat)"

definition width :: "char \<Rightarrow> nat" where
  "width b = (if of_char b < (128::nat) then 1 else if of_char b < (224::nat) then 2 else 3)"

subsection \<open>Example inputs\<close>

text \<open>
  A standard library that parses every URL and whose client is the one of net/http; a
  store holding the tenant record, one without it, one whose record lacks the field, and
  one that answers with another kind of object.
\<close>

definition no_network :: RoundTripper where
  "no_network req = Inl (Error ''no network'')"

definition parse_any :: "string \<Rightarrow> error + url" where
  "parse_any u = Inr (URL u)"

definition absolute :: "url \<Rightarrow> string \<Rightarrow> error + url" where
  "absolute base loc = Inr (URL loc)"

definition first_header :: "Request list \<Rightarrow> url \<Rightarrow> Header" where
  "first_header reqs u = req_Header (hd reqs)"

definition hops0 :: hops where
  "hops0 = \<lparr>resolve = absolute, hop_Header = first_header\<rparr>"

text \<open>The result of the client of net/http (the examples only use calls that return).\<close>

definition http_Do :: "hops \<Rightarrow> Client \<Rightarrow> Request \<Rightarrow> error + Response" where
  "http_Do H c req =
     (case Client_Do H c req of
        None \<Rightarrow> Inl (Error ''no return'')
      | Some (res, reqs) \<Rightarrow> res)"

definition env0 :: env where
  "env0 = \<lparr>url_Parse = parse_any, DefaultTransport = no_network, client_Do = http_Do hops0\<rparr>"

definition store_tenant :: REST where
  "store_tenant ns name =
     (if ns = ''kube-system'' \<and> name = ''virtualcluster-info''
      then Inr (ConfigMapPtr (Some \<lparr>Data = [''VirtualClusterName'' \<mapsto> ''tenant-a'']\<rparr>))
      else Inl (Error ''not found''))"

definition store_empty :: REST where
  "store_empty ns name = Inl (Error ''not found'')"

definition store_no_field :: REST where
  "store_no_field ns name = Inr (ConfigMapPtr (Some \<lparr>Data = [''Other'' \<mapsto> ''x'']\<rparr>))"

definition store_secret :: REST where
  "store_secret ns name = Inr (OtherObject ''Secret'')"

definition resp404 :: Response where
  "resp404 = \<lparr>StatusCode = 404, resp_Header = [''Content-Type'' \<mapsto> [''text/plain'']], Body = 7\<rparr>"

text \<open>A content type with a tab and a space before it and a no-break space after it.\<close>

definition header200 :: string where
  "header200 = [CHR 0x09] @ '' text/plain'' @ [CHR 0xC2, CHR 0xA0] @ ''; v=2''"

definition resp200 :: Response where
  "resp200 = \<lparr>StatusCode = 200, resp_Header = [''Content-Type'' \<mapsto> [header200]], Body = 8\<rparr>"

definition resp302 :: Response where
  "resp302 = \<lparr>StatusCode = 302, resp_Header = [''Location'' \<mapsto> [''http://other.example/y'']],
               Body = 9\<rparr>"

definition upstream404 :: RoundTripper where
  "upstream404 req = Inr resp404"

definition upstream200 :: RoundTripper where
  "upstream200 req = Inr resp200"

definition upstream302 :: RoundTripper where
  "upstream302 req = Inr resp302"

text \<open>A validator that rejects a status of 400 or more and leaves the body alone.\<close>

definition reject_status :: HttpResponseChecker where
  "reject_status resp =
     (if 400 \<le> StatusCode resp then (Some (Error ''unexpected status''), False)
      else (None, False))"

definition streamer_none :: LocationStreamer where
  "streamer_none = \<lparr>Location = None, Transport = None, ContentType = ''text/html'', Flush = True,
                     ResponseChecker = None, RedirectChecker = None, ConfigMap = None\<rparr>"

definition streamer404 :: LocationStreamer where
  "streamer404 = \<lparr>Location = Some (URL ''http://up.example/x''), Transport = Some upstream404,
                   ContentType = [], Flush = False, ResponseChecker = Some reject_status,
                   RedirectChecker = Some PreventRedirects, ConfigMap = Some store_tenant\<rparr>"

definition streamer200 :: LocationStreamer where
  "streamer200 = \<lparr>Location = Some (URL ''http://up.example/x''), Transport = Some upstream200,
                   ContentType = [], Flush = False, ResponseChecker = Some reject_status,
                   RedirectChecker = Some PreventRedirects, ConfigMap = Some store_empty\<rparr>"

definition streamer302 :: LocationStreamer where
  "streamer302 = streamer200\<lparr>Transport := Some upstream302\<rparr>"

definition streamer_no_field :: LocationStreamer where
  "streamer_no_field = streamer200\<lparr>ConfigMap := Some store_no_field\<rparr>"

definition streamer_secret :: LocationStreamer where
  "streamer_secret = streamer200\<lparr>ConfigMap := Some store_secret\<rparr>"

definition world0 :: world where
  "world0 = \<lparr>gets = [], sent = [], closed = {}\<rparr>"

definition client404 :: Client where
  "client404 = \<lparr>cl_Transport = upstream404, CheckRedirect = Some PreventRedirects, Timeout = 0\<rparr>"

definition client200 :: Client where
  "client200 = \<lparr>cl_Transport = upstream200, CheckRedirect = Some PreventRedirects, Timeout = 0\<rparr>"

definition client302 :: Client where
  "client302 = \<lparr>cl_Transport = upstream302, CheckRedirect = Some PreventRedirects, Timeout = 0\<rparr>"

definition request_tenant :: Request where
  "request_tenant = \<lparr>Method = ''GET'', Url = URL ''http://up.example/x'',
                      req_Header = [''Virtualcluster-Name'' \<mapsto> [''tenant-a'']],
                      Ctx = Background\<rparr>"

definition request_no_tenant :: Request where
  "request_no_tenant = \<lparr>Method = ''GET'', Url = URL ''http://up.example/x'',
                         req_Header = [''Virtualcluster-Name'' \<mapsto> [[]]], Ctx = Background\<rparr>"

definition looked_up :: "(string \<times> string) list" where
  "looked_up = [(''kube-system'', ''virtualcluster-info'')]"

definition world404 :: world where
  "world404 = \<lparr>gets = looked_up, sent = [(client404, request_tenant)], closed = {}\<rparr>"

definition world200 :: world where
  "world200 = \<lparr>gets = looked_up, sent = [(client200, request_no_tenant)], closed = {}\<rparr>"

definition world302 :: world where
  "world302 = \<lparr>gets = looked_up, sent = [(client302, request_no_tenant)], closed = {}\<rparr>"

definition rejected302 :: StreamResult where
  "rejected302 =
     \<lparr>stream = None, flush = False, contentType = [],
      err = Some (url_Error ''Get'' ''http://other.example/y'' (Error ''redirects forbidden''))\<rparr>"

definition rejected404 :: StreamResult where
  "rejected404 = \<lparr>stream = None, flush = False, contentType = [],
                   err = Some (Error ''unexpected status'')\<rparr>"

definition ok200 :: StreamResult where
  "ok200 = \<lparr>stream = Some 8, flush = False, contentType = ''text/plain'', err = None\<rparr>"


section \<open>Properties\<close>

subsection \<open>Auxiliary facts\<close>

lemma getVirtualClusterName_frame:
  "getVirtualClusterName s w = (r, w1) \<Longrightarrow> sent w1 = sent w \<and> closed w1 = closed w"
  unfolding getVirtualClusterName_def
  by (auto simp: Let_def split: option.splits sum.splits Object.splits)

lemma NewRequest_GET:
  "NewRequest e ''GET'' u =
     (case url_Parse e u of
        Inl x \<Rightarrow> Inl x
      | Inr parsed \<Rightarrow>
          Inr \<lparr>Method = ''GET'', Url = parsed, req_Header = Map.empty, Ctx = Background\<rparr>)"
  by (simp add: NewRequest_def validMethod_def validHeaderFieldByte_def isUpperByte_def)

lemma canonical_tenant_key:
  "CanonicalMIMEHeaderKey VirtualClusterNameHeaderKey = ''Virtualcluster-Name''"
  by code_simp

lemma canonical_content_type: "CanonicalMIMEHeaderKey ''Content-Type'' = ''Content-Type''"
  by code_simp

lemma Header_Get_tenant:
  "Header_Get (Header_Add Map.empty VirtualClusterNameHeaderKey v) VirtualClusterNameHeaderKey = v"
  by (simp add: Header_Get_def Header_Add_def)

lemma Header_Get_content_type:
  "Header_Get h ''Content-Type'' =
     (case h ''Content-Type'' of None \<Rightarrow> [] | Some [] \<Rightarrow> [] | Some (v # _) \<Rightarrow> v)"
  by (simp add: Header_Get_def canonical_content_type)

lemma TrimSpace_Nil: "TrimSpace [] = []"
  by code_simp

text \<open>The table of the code and the white space of Unicode are the same.\<close>

lemma spaceRunes_utf8: "spaceRunes = white_runes"
  by (simp add: spaceRunes_def white_runes_def White_Space_def utf8_def char_of_def bit_0)

lemma runes_nonempty: "r \<in> set white_runes \<Longrightarrow> r \<noteq> []"
  unfolding spaceRunes_utf8 [symmetric] spaceRunes_def by auto

lemma leadingSpace_find:
  "(leadingSpace s = 0 \<and> \<not> begins_white s) \<or>
   (\<exists>r \<in> set white_runes. prefix r s \<and> leadingSpace s = length r \<and> r \<noteq> [])"
proof (cases "find (\<lambda>r. prefix r s) white_runes")
  case None
  then have "leadingSpace s = 0"
    by (simp add: leadingSpace_def spaceRunes_utf8)
  moreover from None have "\<not> begins_white s"
    by (auto simp: begins_white_def find_None_iff)
  ultimately show ?thesis by simp
next
  case (Some r)
  then have "prefix r s" "r \<in> set white_runes"
    by (auto simp: find_Some_iff dest: nth_mem)
  with Some show ?thesis
    by (auto simp: leadingSpace_def spaceRunes_utf8 dest: runes_nonempty)
qed

lemma trailingSpace_find:
  "(trailingSpace s = 0 \<and> \<not> ends_white s) \<or>
   (\<exists>r \<in> set white_runes. suffix r s \<and> trailingSpace s = length r \<and> r \<noteq> [])"
proof (cases "find (\<lambda>r. suffix r s) white_runes")
  case None
  then have "trailingSpace s = 0"
    by (simp add: trailingSpace_def spaceRunes_utf8)
  moreover from None have "\<not> ends_white s"
    by (auto simp: ends_white_def find_None_iff)
  ultimately show ?thesis by simp
next
  case (Some r)
  then have "suffix r s" "r \<in> set white_runes"
    by (auto simp: find_Some_iff dest: nth_mem)
  with Some show ?thesis
    by (auto simp: trailingSpace_def spaceRunes_utf8 dest: runes_nonempty)
qed

lemma leadingSpace_zero: "leadingSpace s = 0 \<Longrightarrow> \<not> begins_white s"
  using leadingSpace_find [of s] by auto

lemma trailingSpace_zero: "trailingSpace s = 0 \<Longrightarrow> \<not> ends_white s"
  using trailingSpace_find [of s] by auto

lemma leadingSpace_rune:
  "leadingSpace s \<noteq> 0 \<Longrightarrow> \<exists>r \<in> set white_runes. s = r @ drop (leadingSpace s) s"
  using leadingSpace_find [of s] by (auto simp: prefix_def)

lemma trailingSpace_rune:
  "trailingSpace s \<noteq> 0 \<Longrightarrow>
   \<exists>r \<in> set white_runes. s = take (length s - trailingSpace s) s @ r"
  using trailingSpace_find [of s] by (auto simp: suffix_def)

lemma white_append: "white a \<Longrightarrow> white b \<Longrightarrow> white (a @ b)"
  by (induction rule: white.induct) (auto intro: white_rune)

lemma white_single: "r \<in> set white_runes \<Longrightarrow> white r"
  using white_rune [OF _ white_Nil] by simp

lemma TrimLeft_cut: "\<exists>l. s = l @ TrimLeft s \<and> white l \<and> \<not> begins_white (TrimLeft s)"
proof (induction s rule: TrimLeft.induct)
  case (1 s)
  show ?case
  proof (cases "leadingSpace s = 0")
    case True
    then have "TrimLeft s = s" by (simp add: TrimLeft.simps)
    with True show ?thesis
      using white_Nil leadingSpace_zero by auto
  next
    case False
    then have eq: "TrimLeft s = TrimLeft (drop (leadingSpace s) s)"
      by (subst TrimLeft.simps) simp
    from False obtain r where r: "r \<in> set white_runes" "s = r @ drop (leadingSpace s) s"
      using leadingSpace_rune by blast
    from 1 [OF refl False] obtain l where
      l: "drop (leadingSpace s) s = l @ TrimLeft (drop (leadingSpace s) s)" "white l"
        "\<not> begins_white (TrimLeft (drop (leadingSpace s) s))"
      by blast
    have "s = (r @ l) @ TrimLeft s"
      using r(2) l(1) eq by (metis append_assoc)
    moreover have "white (r @ l)" using r(1) l(2) by (rule white_rune)
    ultimately show ?thesis using l(3) eq by metis
  qed
qed

lemma TrimRight_cut: "\<exists>r. s = TrimRight s @ r \<and> white r \<and> \<not> ends_white (TrimRight s)"
proof (induction s rule: TrimRight.induct)
  case (1 s)
  show ?case
  proof (cases "trailingSpace s = 0")
    case True
    then have "TrimRight s = s" by (simp add: TrimRight.simps)
    with True show ?thesis
      using white_Nil trailingSpace_zero by auto
  next
    case False
    let ?p = "take (length s - trailingSpace s) s"
    from False have eq: "TrimRight s = TrimRight ?p"
      by (subst TrimRight.simps) simp
    from False obtain r where r: "r \<in> set white_runes" "s = ?p @ r"
      using trailingSpace_rune by blast
    from 1 [OF refl False] obtain r0 where
      r0: "?p = TrimRight ?p @ r0" "white r0" "\<not> ends_white (TrimRight ?p)"
      by blast
    have "s = TrimRight s @ (r0 @ r)"
      using r(2) r0(1) eq by (metis append_assoc)
    moreover have "white (r0 @ r)" using r0(2) white_single [OF r(1)] by (rule white_append)
    ultimately show ?thesis using r0(3) eq by metis
  qed
qed

lemma TrimSpace_trimmed: "trimmed s (TrimSpace s)"
proof -
  obtain l where l: "s = l @ TrimLeft s" "white l" "\<not> begins_white (TrimLeft s)"
    using TrimLeft_cut by blast
  obtain r where r: "TrimLeft s = TrimSpace s @ r" "white r" "\<not> ends_white (TrimSpace s)"
    using TrimRight_cut [of "TrimLeft s"] unfolding TrimSpace_def by blast
  have "\<not> begins_white (TrimSpace s)"
    using l(3) r(1) unfolding begins_white_def by (metis prefix_append)
  moreover have "s = l @ TrimSpace s @ r"
    using l(1) r(1) by simp
  ultimately show ?thesis
    unfolding trimmed_def using l(2) r(2) r(3) by blast
qed


lemma rune_shape:
  assumes "r \<in> set white_runes"
  shows "r \<noteq> []" "\<not> continuation (hd r)" "\<forall>b \<in> set (tl r). continuation b"
    "length r = width (hd r)"
  using assms unfolding spaceRunes_utf8 [symmetric] spaceRunes_def
  by (auto simp: continuation_def width_def)

lemma rune_unique:
  assumes "r \<in> set white_runes" "r' \<in> set white_runes" "r @ x = r' @ y"
  shows "r = r' \<and> x = y"
proof -
  from assms have "hd r = hd r'"
    by (metis hd_append2 rune_shape(1))
  with assms(1,2) have "length r = length r'"
    by (simp add: rune_shape(4))
  with assms(3) show ?thesis by simp
qed

lemma white_hd: "white s \<Longrightarrow> s \<noteq> [] \<Longrightarrow> \<not> continuation (hd s)"
  by (induction rule: white.induct) (auto simp: rune_shape(1,2))

lemma white_first:
  "white s \<Longrightarrow> s \<noteq> [] \<Longrightarrow> \<exists>r s'. s = r @ s' \<and> r \<in> set white_runes \<and> white s'"
  by (erule white.cases) auto

lemma white_begins: "white s \<Longrightarrow> s \<noteq> [] \<Longrightarrow> begins_white s"
  using white_first [of s] unfolding begins_white_def by (metis prefixI)

lemma white_ends: "white s \<Longrightarrow> s \<noteq> [] \<Longrightarrow> ends_white s"
proof (induction rule: white.induct)
  case white_Nil
  then show ?case by simp
next
  case (white_rune r s)
  show ?case
  proof (cases "s = []")
    case True
    with white_rune(1) show ?thesis by (auto simp: ends_white_def)
  next
    case False
    with white_rune(3) obtain r' where "r' \<in> set white_runes" "suffix r' s"
      by (auto simp: ends_white_def)
    then show ?thesis
      by (auto simp: ends_white_def intro: suffix_appendI)
  qed
qed

lemma white_split:
  assumes "white x" "x = a @ b" "b \<noteq> [] \<longrightarrow> \<not> continuation (hd b)"
  shows "white a \<and> white b"
  using assms
proof (induction arbitrary: a rule: white.induct)
  case white_Nil
  then show ?case by (simp add: white.white_Nil)
next
  case (white_rune r s)
  from white_rune.prems(1) consider
    u where "r = a @ u" "u @ s = b" | u where "r @ u = a" "s = u @ b"
    by (auto simp: append_eq_append_conv2)
  then show ?case
  proof cases
    case 1
    show ?thesis
    proof (cases "a = [] \<or> u = []")
      case True
      with 1 white_rune.hyps show ?thesis
        by (auto intro: white.intros white_single)
    next
      case False
      with 1 have "hd b = hd u" "hd u \<in> set (tl r)"
        by (auto simp: tl_append split: list.splits)
      with white_rune.hyps(1) have "continuation (hd b)"
        by (simp add: rune_shape(3))
      with 1 False white_rune.prems(2) show ?thesis by auto
    qed
  next
    case 2
    from white_rune.IH [OF 2(2) white_rune.prems(2)] have "white u" "white b" by simp_all
    with 2 white_rune.hyps(1) show ?thesis by (auto intro: white.white_rune)
  qed
qed

lemma white_prefixes:
  assumes "white l" "white p" "l @ x = p @ y" "length l \<le> length p"
  shows "\<exists>m. p = l @ m \<and> white m"
  using assms
proof (induction arbitrary: p rule: white.induct)
  case white_Nil
  then show ?case by simp
next
  case (white_rune r l0)
  from white_rune.prems(3) white_rune.hyps(1) have "p \<noteq> []"
    by (auto dest: rune_shape(1))
  with white_rune.prems(1) obtain r' p0 where p: "p = r' @ p0" "r' \<in> set white_runes" "white p0"
    using white_first by blast
  with white_rune.prems(2) have "r @ (l0 @ x) = r' @ (p0 @ y)" by simp
  from rune_unique [OF white_rune.hyps(1) p(2) this] have same: "r = r'" "l0 @ x = p0 @ y"
    by simp_all
  with white_rune.prems(3) p(1) have "length l0 \<le> length p0" by simp
  from white_rune.IH [OF p(3) same(2) this] obtain m where "p0 = l0 @ m" "white m" by blast
  with p(1) same(1) show ?case by simp
qed

lemma trimmed_longest:
  assumes "s = l @ t @ r" "white l" "white r" "\<not> begins_white t" "t \<noteq> []"
    and "white p" "s = p @ y"
  shows "length p \<le> length l"
proof (rule ccontr)
  assume "\<not> length p \<le> length l"
  then have less: "length l \<le> length p" "length l \<noteq> length p" by simp_all
  from assms(1,7) have "l @ (t @ r) = p @ y" by simp
  from white_prefixes [OF assms(2,6) this less(1)] obtain m where m: "p = l @ m" "white m"
    by blast
  with less(2) have "m \<noteq> []" by auto
  with m(2) obtain q m' where q: "m = q @ m'" "q \<in> set white_runes"
    using white_first by blast
  from assms(1,7) m(1) q(1) have "t @ r = q @ (m' @ y)" by simp
  then consider u where "t = q @ u" | u where "t @ u = q" "r = u @ m' @ y"
    by (auto simp: append_eq_append_conv2)
  then show False
  proof cases
    case 1
    with q(2) assms(4) show False by (auto simp: begins_white_def)
  next
    case 2
    show False
    proof (cases "u = []")
      case True
      with 2 q(2) assms(4) show False by (auto simp: begins_white_def)
    next
      case False
      with 2 assms(5) have "hd r = hd u" "hd u \<in> set (tl q)"
        by (auto simp: tl_append split: list.splits)
      with q(2) have "continuation (hd r)" by (simp add: rune_shape(3))
      moreover from False 2 have "r \<noteq> []" by simp
      ultimately show False using white_hd [OF assms(3)] by simp
    qed
  qed
qed

lemma trimmed_of_white:
  assumes "white s" "s = l @ t @ r" "white l" "white r" "\<not> begins_white t"
  shows "t = []"
proof -
  from assms(1,2) have "white ((l @ t) @ r)" by simp
  from white_split [OF this refl] white_hd [OF assms(4)] have lt: "white (l @ t)" by blast
  have "l @ t = (l @ t) @ []" by simp
  from white_prefixes [OF assms(3) lt this] obtain m where "l @ t = l @ m" "white m" by auto
  then have "white t" by simp
  with assms(5) show ?thesis using white_begins by blast
qed

lemma trimmed_unique:
  assumes "trimmed s t" "trimmed s t'"
  shows "t = t'"
proof -
  from assms(1) obtain l r where
    a: "s = l @ t @ r" "white l" "white r" "\<not> begins_white t" "\<not> ends_white t"
    unfolding trimmed_def by blast
  from assms(2) obtain l' r' where
    b: "s = l' @ t' @ r'" "white l'" "white r'" "\<not> begins_white t'" "\<not> ends_white t'"
    unfolding trimmed_def by blast
  show ?thesis
  proof (cases "t = [] \<or> t' = []")
    case True
    then show ?thesis
    proof
      assume t: "t = []"
      with a have "white s" by (simp add: white_append)
      from trimmed_of_white [OF this b(1-4)] t show ?thesis by simp
    next
      assume t': "t' = []"
      with b have "white s" by (simp add: white_append)
      from trimmed_of_white [OF this a(1-4)] t' show ?thesis by simp
    qed
  next
    case False
    then have ne: "t \<noteq> []" "t' \<noteq> []" by simp_all
    have "s = l @ (t @ r)" "s = l' @ (t' @ r')" using a(1) b(1) by simp_all
    from trimmed_longest [OF b(1-4) ne(2) a(2) this(1)]
      trimmed_longest [OF a(1-4) ne(1) b(2) this(2)]
    have "length l = length l'" by simp
    with a(1) b(1) have rest: "t @ r = t' @ r'" by simp
    then consider d where "t = t' @ d" "d @ r = r'" | d where "t @ d = t'" "r = d @ r'"
      by (auto simp: append_eq_append_conv2)
    then show ?thesis
    proof cases
      case 1
      from white_split [OF b(3) 1(2) [symmetric]] white_hd [OF a(3)] have "white d" by blast
      then have "d = []"
        using white_ends [of d] a(5) 1(1) by (auto simp: ends_white_def intro: suffix_appendI)
      with 1 show ?thesis by simp
    next
      case 2
      from white_split [OF a(3) 2(2)] white_hd [OF b(3)] have "white d" by blast
      then have "d = []"
        using white_ends [of d] b(5) 2(1) by (auto simp: ends_white_def intro: suffix_appendI)
      with 2 show ?thesis by simp
    qed
  qed
qed

lemma spec_contentType_code:
  "spec_contentType ct hdr
     (if ct = []
      then TrimSpace (takeWhile (\<lambda>b. b \<noteq> CHR '';'') (Header_Get hdr ''Content-Type''))
      else ct)"
  by (auto simp: spec_contentType_def Header_Get_content_type TrimSpace_Nil TrimSpace_trimmed
      split: option.splits list.splits)

lemma spec_contentType_unique:
  "spec_contentType ct hdr t \<Longrightarrow> spec_contentType ct hdr t' \<Longrightarrow> t = t'"
  by (auto simp: spec_contentType_def split: if_splits option.splits list.splits
      dest: trimmed_unique)

text \<open>A client whose policy is \<open>PreventRedirects\<close> makes one round trip and no more.\<close>

lemma Client_Do_PreventRedirects:
  assumes "CheckRedirect c = Some PreventRedirects"
  shows "Client_Do H c req =
     Some (case cl_Transport c req of
             Inl x \<Rightarrow> Inl (url_Error (urlErrorOp (Method req)) (url_String (Url req)) x)
           | Inr resp \<Rightarrow>
               if \<not> snd (redirectBehavior (Method req) resp) then Inr resp
               else if Header_Get (resp_Header resp) ''Location'' = []
               then Inl (url_Error (urlErrorOp (Method req)) (url_String (Url req))
                      (Error (Itoa (StatusCode resp) @ '' response missing Location header'')))
               else (case resolve H (Url req) (Header_Get (resp_Header resp) ''Location'') of
                       Inl x \<Rightarrow>
                         Inl (url_Error (urlErrorOp (Method req)) (url_String (Url req))
                           (Error (''failed to parse Location header '' @ [CHR 0x22] @
                                   Header_Get (resp_Header resp) ''Location'' @ [CHR 0x22] @
                                   '': '' @ Message x)))
                     | Inr u \<Rightarrow>
                         Inl (url_Error (urlErrorOp (Method req))
                           (Header_Get (resp_Header resp) ''Location'')
                           (Error ''redirects forbidden''))),
           [req])"
  unfolding Client_Do_def
  by (subst do_loop.simps)
    (auto simp: Let_def checkRedirect_def assms PreventRedirects_def errors_New_def
      ErrUseLastResponse_def split: sum.splits prod.splits)

lemma Index_single:
  "Index s [b] = (if b \<in> set s then Some (length (takeWhile (\<lambda>x. x \<noteq> b) s)) else None)"
  by (induction s) auto

text \<open>Cutting at a one-byte separator at most once: the first piece is what precedes it.\<close>

lemma SplitN_single:
  "SplitN h [b] 2 =
     takeWhile (\<lambda>x. x \<noteq> b) h #
     (if b \<in> set h then [drop (Suc (length (takeWhile (\<lambda>x. x \<noteq> b) h))) h] else [])"
proof -
  have two: "(2::nat) - 1 = Suc 0" by simp
  have whole: "takeWhile (\<lambda>x. x \<noteq> b) h = h" if "b \<notin> set h"
    using that by auto
  show ?thesis
    unfolding SplitN_def two
    by (auto simp: Index_single takeWhile_eq_take [symmetric] whole)
qed

text \<open>The seven ways a call of \<open>InputStream\<close> can end.\<close>

lemma InputStream_cases [consumes 1, case_names no_location construct nil_context lookup_panic
    transport rejected ok]:
  assumes run: "InputStream e s c w = (r, w')"
  obtains
    "Location s = None" "r = Return (no_stream None)" "w' = w"
  | loc x where "Location s = Some loc" "url_Parse e (url_String loc) = Inl x"
      "r = Return (no_stream (Some (construct_error (url_String loc) x)))" "w' = w"
  | loc u where "Location s = Some loc" "url_Parse e (url_String loc) = Inr u" "c = None"
      "r = Panic ''nil context''" "w' = w"
  | loc u c' msg where "Location s = Some loc" "url_Parse e (url_String loc) = Inr u"
      "c = Some c'" "getVirtualClusterName s w = (Panic msg, w')" "r = Panic msg"
  | loc u c' vcName w1 cl req x where "Location s = Some loc"
      "url_Parse e (url_String loc) = Inr u" "c = Some c'"
      "getVirtualClusterName s w = (Return vcName, w1)"
      "cl = \<lparr>cl_Transport = (case Transport s of None \<Rightarrow> DefaultTransport e | Some t \<Rightarrow> t),
             CheckRedirect = RedirectChecker s, Timeout = 0\<rparr>"
      "req = \<lparr>Method = ''GET'', Url = u,
              req_Header = Header_Add Map.empty VirtualClusterNameHeaderKey vcName, Ctx = c'\<rparr>"
      "client_Do e cl req = Inl x"
      "r = Return (no_stream (Some x))" "w' = w1\<lparr>sent := sent w @ [(cl, req)]\<rparr>"
  | loc u c' vcName w1 cl req resp checker x shut where "Location s = Some loc"
      "url_Parse e (url_String loc) = Inr u" "c = Some c'"
      "getVirtualClusterName s w = (Return vcName, w1)"
      "cl = \<lparr>cl_Transport = (case Transport s of None \<Rightarrow> DefaultTransport e | Some t \<Rightarrow> t),
             CheckRedirect = RedirectChecker s, Timeout = 0\<rparr>"
      "req = \<lparr>Method = ''GET'', Url = u,
              req_Header = Header_Add Map.empty VirtualClusterNameHeaderKey vcName, Ctx = c'\<rparr>"
      "client_Do e cl req = Inr resp"
      "ResponseChecker s = Some checker" "checker resp = (Some x, shut)"
      "r = Return (no_stream (Some x))"
      "w' = w1\<lparr>sent := sent w @ [(cl, req)],
                closed := (if shut then insert (Body resp) (closed w) else closed w)\<rparr>"
  | loc u c' vcName w1 cl req resp shut where "Location s = Some loc"
      "url_Parse e (url_String loc) = Inr u" "c = Some c'"
      "getVirtualClusterName s w = (Return vcName, w1)"
      "cl = \<lparr>cl_Transport = (case Transport s of None \<Rightarrow> DefaultTransport e | Some t \<Rightarrow> t),
             CheckRedirect = RedirectChecker s, Timeout = 0\<rparr>"
      "req = \<lparr>Method = ''GET'', Url = u,
              req_Header = Header_Add Map.empty VirtualClusterNameHeaderKey vcName, Ctx = c'\<rparr>"
      "client_Do e cl req = Inr resp"
      "(case ResponseChecker s of None \<Rightarrow> (None, False) | Some checker \<Rightarrow> checker resp)
         = (None, shut)"
      "r = Return \<lparr>stream = Some (Body resp), flush = Flush s,
                   contentType =
                     (if ContentType s = []
                      then TrimSpace (takeWhile (\<lambda>b. b \<noteq> CHR '';'')
                             (Header_Get (resp_Header resp) ''Content-Type''))
                      else ContentType s),
                   err = None\<rparr>"
      "w' = w1\<lparr>sent := sent w @ [(cl, req)],
                closed := (if shut then insert (Body resp) (closed w) else closed w)\<rparr>"
proof (cases "Location s")
  case None
  with run that(1) show ?thesis by (simp add: InputStream_def)
next
  case loc: (Some loc)
  show ?thesis
  proof (cases "url_Parse e (url_String loc)")
    case (Inl x)
    with run loc that(2) show ?thesis by (simp add: InputStream_def NewRequest_GET)
  next
    case u: (Inr u)
    show ?thesis
    proof (cases c)
      case None
      with run loc u that(3) show ?thesis
        by (simp add: InputStream_def NewRequest_GET WithContext_def)
    next
      case c': (Some c')
      obtain v w1 where look: "getVirtualClusterName s w = (v, w1)"
        by (cases "getVirtualClusterName s w")
      from getVirtualClusterName_frame [OF look]
      have fr: "sent w1 = sent w" "closed w1 = closed w" by simp_all
      show ?thesis
      proof (cases v)
        case (Panic msg)
        with run loc u c' look that(4) show ?thesis
          by (simp add: InputStream_def NewRequest_GET WithContext_def)
      next
        case vc: (Return vcName)
        define cl where "cl =
          \<lparr>cl_Transport = (case Transport s of None \<Rightarrow> DefaultTransport e | Some t \<Rightarrow> t),
           CheckRedirect = RedirectChecker s, Timeout = 0\<rparr>"
        define req where "req =
          \<lparr>Method = ''GET'', Url = u,
           req_Header = Header_Add Map.empty VirtualClusterNameHeaderKey vcName, Ctx = c'\<rparr>"
        show ?thesis
        proof (cases "client_Do e cl req")
          case (Inl x)
          with run loc u c' look vc fr that(5) [OF loc u c' _ cl_def req_def] show ?thesis
            by (simp add: InputStream_def NewRequest_GET WithContext_def cl_def req_def)
        next
          case resp: (Inr resp)
          obtain verdict shut where chk:
            "(case ResponseChecker s of None \<Rightarrow> (None, False) | Some checker \<Rightarrow> checker resp)
               = (verdict, shut)"
            by (cases "case ResponseChecker s of None \<Rightarrow> (None, False)
                       | Some checker \<Rightarrow> checker resp")
          show ?thesis
          proof (cases verdict)
            case None
            with run loc u c' look vc fr resp chk that(7) [OF loc u c' _ cl_def req_def]
            show ?thesis
              by (auto simp add: InputStream_def NewRequest_GET WithContext_def cl_def req_def
                  SplitN_single TrimSpace_Nil Let_def split: if_splits)
          next
            case (Some x)
            with chk obtain checker
              where "ResponseChecker s = Some checker" "checker resp = (Some x, shut)"
              by (cases "ResponseChecker s") auto
            with Some run loc u c' look vc fr resp chk that(6) [OF loc u c' _ cl_def req_def]
            show ?thesis
              by (auto simp add: InputStream_def NewRequest_GET WithContext_def cl_def req_def
                  Let_def split: if_splits)
          qed
        qed
      qed
    qed
  qed
qed

text \<open>The requests a call hands to the client: none or one, and which one.\<close>

lemma InputStream_sent:
  "map snd (sent (snd (InputStream e s c w))) =
     map snd (sent w) @
     (case Location s of
        None \<Rightarrow> []
      | Some loc \<Rightarrow>
          (case url_Parse e (url_String loc) of
             Inl x \<Rightarrow> []
           | Inr u \<Rightarrow>
               (case c of
                  None \<Rightarrow> []
                | Some c' \<Rightarrow>
                    (case fst (getVirtualClusterName s w) of
                       Panic msg \<Rightarrow> []
                     | Return vcName \<Rightarrow>
                         [\<lparr>Method = ''GET'', Url = u,
                           req_Header =
                             [CanonicalMIMEHeaderKey VirtualClusterNameHeaderKey \<mapsto> [vcName]],
                           Ctx = c'\<rparr>]))))"
proof -
  obtain r w' where run: "InputStream e s c w = (r, w')"
    by (cases "InputStream e s c w")
  have w': "snd (InputStream e s c w) = w'"
    by (simp add: run)
  from run show ?thesis
    unfolding w'
    by (cases rule: InputStream_cases)
      (auto simp: Header_Add_def dest: getVirtualClusterName_frame)
qed

text \<open>
  The context of the request sent is the caller's, and the client is built with no timeout
  and with the streamer's redirect checker.
\<close>

lemma InputStream_request_context:
  assumes "InputStream e s c w = (r, w')" and "sent w' = sent w @ [(cl, req)]"
  shows "c = Some (Ctx req) \<and> Timeout cl = 0 \<and> CheckRedirect cl = RedirectChecker s"
  using assms
  by (cases rule: InputStream_cases) (auto dest: getVirtualClusterName_frame)


lemma Client_Do_rejects:
  assumes "CheckRedirect c = Some PreventRedirects" "cl_Transport c req = Inr resp"
    "snd (redirectBehavior (Method req) resp)"
  shows "\<exists>x. Client_Do H c req = Some (Inl x, [req])"
  unfolding Client_Do_PreventRedirects [OF assms(1)] using assms(2,3)
  by (cases "resolve H (Url req) (Header_Get (resp_Header resp) ''Location'')") simp_all

subsection \<open>The example inputs, evaluated\<close>

lemmas store_coordinates =
  VirtualClusterInfoConfigMapNS_def VirtualClusterInfoConfigMapName_def
  VirtualClusterNameConfigMapDataKey_def

lemma streamer404_fields:
  "Location streamer404 = Some (URL ''http://up.example/x'')"
  "Transport streamer404 = Some upstream404"
  "ContentType streamer404 = []"
  "Flush streamer404 = False"
  "ResponseChecker streamer404 = Some reject_status"
  "RedirectChecker streamer404 = Some PreventRedirects"
  "ConfigMap streamer404 = Some store_tenant"
  by (simp_all add: streamer404_def)

lemma streamer200_fields:
  "Location streamer200 = Some (URL ''http://up.example/x'')"
  "Transport streamer200 = Some upstream200"
  "ContentType streamer200 = []"
  "Flush streamer200 = False"
  "ResponseChecker streamer200 = Some reject_status"
  "RedirectChecker streamer200 = Some PreventRedirects"
  "ConfigMap streamer200 = Some store_empty"
  by (simp_all add: streamer200_def)

lemma env0_fields:
  "url_Parse env0 u = Inr (URL u)"
  by (simp add: env0_def parse_any_def)

lemma env0_net_http: "net_http hops0 env0"
  by (simp add: net_http_def env0_def http_Do_def)

lemma canonical_location: "CanonicalMIMEHeaderKey ''Location'' = ''Location''"
  by code_simp

lemma not_redirect:
  "redirectBehavior m resp404 = ([], False)" "redirectBehavior m resp200 = ([], False)"
  by (simp_all add: redirectBehavior_def resp404_def resp200_def)

lemma is_redirect: "redirectBehavior ''GET'' resp302 = (''GET'', True)"
  by (simp add: redirectBehavior_def resp302_def)

lemma env0_Do:
  "client_Do env0 client404 req = Inr resp404"
  "client_Do env0 client200 req = Inr resp200"
  by (simp_all add: env0_def http_Do_def Client_Do_PreventRedirects client404_def client200_def
      upstream404_def upstream200_def not_redirect)

lemma op_GET: "urlErrorOp ''GET'' = ''Get''"
  by (simp add: urlErrorOp_def toLowerByte_def isUpperByte_def char_of_def bit_0)

lemma location302: "Header_Get (resp_Header resp302) ''Location'' = ''http://other.example/y''"
  by (simp add: Header_Get_def canonical_location resp302_def)

lemma env0_Do_redirect:
  "Method req = ''GET'' \<Longrightarrow>
   client_Do env0 client302 req =
     Inl (url_Error ''Get'' ''http://other.example/y'' (Error ''redirects forbidden''))"
  by (simp add: env0_def http_Do_def Client_Do_PreventRedirects client302_def upstream302_def
      is_redirect op_GET location302 hops0_def absolute_def)

lemma lookup_tenant:
  "getVirtualClusterName streamer404 w = (Return ''tenant-a'', w\<lparr>gets := gets w @ looked_up\<rparr>)"
  by (simp add: getVirtualClusterName_def streamer404_fields store_tenant_def looked_up_def
      store_coordinates)

lemma lookup_empty:
  "getVirtualClusterName streamer200 w = (Return [], w\<lparr>gets := gets w @ looked_up\<rparr>)"
  by (simp add: getVirtualClusterName_def streamer200_fields store_empty_def looked_up_def
      store_coordinates)

lemma run404:
  "InputStream env0 streamer404 (Some Background) world0 = (Return rejected404, world404)"
  by (simp add: InputStream_def NewRequest_GET WithContext_def lookup_tenant streamer404_fields
      Header_Add_def canonical_tenant_key Let_def env0_fields env0_Do(1) [unfolded client404_def]
      reject_status_def resp404_def world0_def world404_def rejected404_def no_stream_def
      client404_def request_tenant_def)

lemma cut200: "takeWhile (\<lambda>b. b \<noteq> CHR '';'') header200 = [CHR 0x09] @ '' text/plain'' @ [CHR 0xC2, CHR 0xA0]"
  by (simp add: header200_def)

lemma header200_nonempty: "header200 \<noteq> []"
  by (simp add: header200_def)

lemma trimmed200: "TrimSpace ([CHR 0x09] @ '' text/plain'' @ [CHR 0xC2, CHR 0xA0]) = ''text/plain''"
  by code_simp

lemma run200:
  "InputStream env0 streamer200 (Some Background) world0 = (Return ok200, world200)"
  by (simp add: InputStream_def NewRequest_GET WithContext_def lookup_empty streamer200_fields
      Header_Add_def Header_Get_content_type canonical_tenant_key Let_def env0_fields
      env0_Do(2) [unfolded client200_def] SplitN_single cut200 trimmed200 [simplified]
      header200_nonempty
      reject_status_def resp200_def world0_def world200_def ok200_def no_stream_def
      client200_def request_no_tenant_def)

lemma streamer302_fields:
  "Location streamer302 = Some (URL ''http://up.example/x'')"
  "Transport streamer302 = Some upstream302"
  "RedirectChecker streamer302 = Some PreventRedirects"
  "ConfigMap streamer302 = Some store_empty"
  by (simp_all add: streamer302_def streamer200_def)

lemma lookup_empty302:
  "getVirtualClusterName streamer302 w = (Return [], w\<lparr>gets := gets w @ looked_up\<rparr>)"
  by (simp add: getVirtualClusterName_def streamer302_fields store_empty_def looked_up_def
      store_coordinates)

lemma run302:
  "InputStream env0 streamer302 (Some Background) world0 = (Return rejected302, world302)"
  by (simp add: InputStream_def NewRequest_GET WithContext_def lookup_empty302
      streamer302_fields Header_Add_def canonical_tenant_key Let_def env0_fields
      env0_Do_redirect [unfolded client302_def]
      world0_def world302_def rejected302_def no_stream_def client302_def
      request_no_tenant_def)

subsection \<open>The claims\<close>

text \<open>
  C1, as amended. When the configured validator rejects the response the client returned,
  \<open>InputStream\<close> returns the validator's error with no stream handle, flush false and an
  empty content type. It does not close the response body itself: afterwards the body is
  closed only if the validator closed it, and no other body is touched.
\<close>

theorem InputStream_validator_rejection:
  assumes "InputStream e s c w = (r, w')"
    and "sent w' = sent w @ [(cl, req)]"
    and "client_Do e cl req = Inr resp"
    and "ResponseChecker s = Some checker"
    and "checker resp = (Some x, shut)"
  shows "r = Return \<lparr>stream = None, flush = False, contentType = [], err = Some x\<rparr> \<and>
         closed w' = (if shut then insert (Body resp) (closed w) else closed w)"
  using assms
  by (cases rule: InputStream_cases)
    (auto simp: no_stream_def dest: getVirtualClusterName_frame)

theorem InputStream_validator_rejection_witness:
  "InputStream env0 streamer404 (Some Background) world0 = (Return rejected404, world404) \<and>
   sent world404 = sent world0 @ [(client404, request_tenant)] \<and>
   client_Do env0 client404 request_tenant = Inr resp404 \<and>
   ResponseChecker streamer404 = Some reject_status \<and>
   reject_status resp404 = (Some (Error ''unexpected status''), False) \<and>
   Return rejected404 =
     Return \<lparr>stream = None, flush = False, contentType = [],
              err = Some (Error ''unexpected status'')\<rparr> \<and>
   closed world404 = closed world0"
proof -
  have sent: "sent world404 = sent world0 @ [(client404, request_tenant)]"
    by (simp add: world404_def world0_def)
  have reply: "client_Do env0 client404 request_tenant = Inr resp404"
    by (rule env0_Do(1))
  have verdict: "reject_status resp404 = (Some (Error ''unexpected status''), False)"
    by (simp add: reject_status_def resp404_def)
  from InputStream_validator_rejection [OF run404 sent reply streamer404_fields(5) verdict]
  show ?thesis
    using run404 sent reply verdict by (simp add: streamer404_fields)
qed

text \<open>
  C1 as stated fails: a validator that rejects a 404 response without closing its body
  makes \<open>InputStream\<close> return the error while the body (handle 7) is still open.
\<close>

theorem validator_rejection_body_left_open:
  "ResponseChecker streamer404 = Some reject_status \<and>
   client_Do env0 client404 request_tenant = Inr resp404 \<and>
   fst (reject_status resp404) = Some (Error ''unexpected status'') \<and>
   InputStream env0 streamer404 (Some Background) world0 = (Return rejected404, world404) \<and>
   sent world404 = [(client404, request_tenant)] \<and>
   err rejected404 = Some (Error ''unexpected status'') \<and>
   stream rejected404 = None \<and>
   Body resp404 \<notin> closed world404"
  by (simp add: run404 streamer404_fields env0_Do
      reject_status_def resp404_def rejected404_def world404_def)

text \<open>
  C2. With an unset (nil) location \<open>InputStream\<close> returns at once: no stream handle, flush
  false, empty content type, no error; and it leaves the outside untouched (no lookup, no
  request, nothing closed).
\<close>

theorem InputStream_no_location:
  "Location s = None \<Longrightarrow>
   InputStream e s c w =
     (Return \<lparr>stream = None, flush = False, contentType = [], err = None\<rparr>, w)"
  by (simp add: InputStream_def no_stream_def)

theorem InputStream_no_location_witness:
  "Location streamer_none = None \<and>
   InputStream env0 streamer_none (Some Background) world0 =
     (Return \<lparr>stream = None, flush = False, contentType = [], err = None\<rparr>, world0)"
proof -
  have nil: "Location streamer_none = None"
    by (simp add: streamer_none_def)
  from InputStream_no_location [OF nil] show ?thesis
    using nil by simp
qed

text \<open>
  C3. For every successful stream attempt (a request was sent, the client returned a
  response, and \<open>InputStream\<close> returned no error) the content type returned is the one the
  specification describes, and the only one: the explicit content type verbatim if there
  is one; otherwise the part of the response's "Content-Type" header before the first ";",
  trimmed of surrounding white space; and the empty string if the header is absent.
\<close>

theorem InputStream_contentType:
  assumes "InputStream e s c w = (Return r, w')"
    and "sent w' = sent w @ [(cl, req)]"
    and "client_Do e cl req = Inr resp"
    and "err r = None"
  shows "spec_contentType (ContentType s) (resp_Header resp) (contentType r) \<and>
         (\<forall>t. spec_contentType (ContentType s) (resp_Header resp) t \<longrightarrow> t = contentType r)"
proof -
  from assms have "contentType r =
      (if ContentType s = []
       then TrimSpace (takeWhile (\<lambda>b. b \<noteq> CHR '';'')
              (Header_Get (resp_Header resp) ''Content-Type''))
       else ContentType s)"
    by (cases rule: InputStream_cases)
      (auto simp: no_stream_def dest: getVirtualClusterName_frame)
  then have "spec_contentType (ContentType s) (resp_Header resp) (contentType r)"
    using spec_contentType_code [of "ContentType s" "resp_Header resp"] by simp
  then show ?thesis
    using spec_contentType_unique by blast
qed

theorem InputStream_contentType_witness:
  "InputStream env0 streamer200 (Some Background) world0 = (Return ok200, world200) \<and>
   sent world200 = sent world0 @ [(client200, request_no_tenant)] \<and>
   client_Do env0 client200 request_no_tenant = Inr resp200 \<and>
   err ok200 = None \<and>
   resp_Header resp200 ''Content-Type'' =
     Some [[CHR 0x09] @ '' text/plain'' @ [CHR 0xC2, CHR 0xA0] @ ''; v=2''] \<and>
   contentType ok200 = ''text/plain'' \<and>
   spec_contentType (ContentType streamer200) (resp_Header resp200) ''text/plain'' \<and>
   \<not> spec_contentType (ContentType streamer200) (resp_Header resp200)
       ([CHR 0x09] @ '' text/plain'' @ [CHR 0xC2, CHR 0xA0])"
proof -
  have sent: "sent world200 = sent world0 @ [(client200, request_no_tenant)]"
    by (simp add: world200_def world0_def)
  have fine: "err ok200 = None"
    by (simp add: ok200_def)
  have ct: "contentType ok200 = ''text/plain''"
    by (simp add: ok200_def)
  from InputStream_contentType [OF run200 sent env0_Do(2) fine]
  have "spec_contentType (ContentType streamer200) (resp_Header resp200) ''text/plain''"
    and "\<not> spec_contentType (ContentType streamer200) (resp_Header resp200)
           ([CHR 0x09] @ '' text/plain'' @ [CHR 0xC2, CHR 0xA0])"
    unfolding ct by auto
  with run200 sent env0_Do(2) fine ct show ?thesis
    by (simp add: resp200_def header200_def)
qed

text \<open>
  C4. Whenever the fetch of the record (namespace "kube-system", name
  "virtualcluster-info") fails, or the record fetched lacks the field "VirtualClusterName",
  \<open>getVirtualClusterName\<close> returns the empty string, having made that one lookup. The
  stream operation is not stopped by it: it never panics, and with a location that parses
  it goes on to send its request, with the empty tenant string in the header.
\<close>

theorem getVirtualClusterName_best_effort:
  assumes "ConfigMap s = Some store"
    and "(\<exists>x. store VirtualClusterInfoConfigMapNS VirtualClusterInfoConfigMapName = Inl x) \<or>
         (\<exists>cm. store VirtualClusterInfoConfigMapNS VirtualClusterInfoConfigMapName =
                  Inr (ConfigMapPtr (Some cm)) \<and>
               Data cm VirtualClusterNameConfigMapDataKey = None)"
  shows "getVirtualClusterName s w =
           (Return [], w\<lparr>gets := gets w @
                           [(VirtualClusterInfoConfigMapNS, VirtualClusterInfoConfigMapName)]\<rparr>) \<and>
         (\<forall>e c' msg. fst (InputStream e s (Some c') w) \<noteq> Panic msg) \<and>
         (\<forall>e c' loc u. Location s = Some loc \<and> url_Parse e (url_String loc) = Inr u \<longrightarrow>
            map snd (sent (snd (InputStream e s (Some c') w))) =
              map snd (sent w) @
              [\<lparr>Method = ''GET'', Url = u,
                req_Header = [CanonicalMIMEHeaderKey VirtualClusterNameHeaderKey \<mapsto> [[]]],
                Ctx = c'\<rparr>])"
proof -
  from assms have look: "getVirtualClusterName s w =
      (Return [], w\<lparr>gets := gets w @
                      [(VirtualClusterInfoConfigMapNS, VirtualClusterInfoConfigMapName)]\<rparr>)"
    by (auto simp: getVirtualClusterName_def)
  have "fst (InputStream e s (Some c') w) \<noteq> Panic msg" for e c' msg
  proof -
    obtain r w' where run: "InputStream e s (Some c') w = (r, w')"
      by (cases "InputStream e s (Some c') w")
    from run have "r \<noteq> Panic msg"
      by (cases rule: InputStream_cases) (auto simp: look)
    with run show ?thesis by simp
  qed
  moreover have "map snd (sent (snd (InputStream e s (Some c') w))) =
      map snd (sent w) @
      [\<lparr>Method = ''GET'', Url = u,
        req_Header = [CanonicalMIMEHeaderKey VirtualClusterNameHeaderKey \<mapsto> [[]]],
        Ctx = c'\<rparr>]"
    if "Location s = Some loc" "url_Parse e (url_String loc) = Inr u" for e c' loc u
    using that by (simp add: InputStream_sent look)
  ultimately show ?thesis
    using look by blast
qed

theorem getVirtualClusterName_best_effort_witness:
  "ConfigMap streamer200 = Some store_empty \<and>
   store_empty VirtualClusterInfoConfigMapNS VirtualClusterInfoConfigMapName =
     Inl (Error ''not found'') \<and>
   fst (getVirtualClusterName streamer200 world0) = Return [] \<and>
   ConfigMap streamer_no_field = Some store_no_field \<and>
   store_no_field VirtualClusterInfoConfigMapNS VirtualClusterInfoConfigMapName =
     Inr (ConfigMapPtr (Some \<lparr>Data = [''Other'' \<mapsto> ''x'']\<rparr>)) \<and>
   [''Other'' \<mapsto> ''x''] VirtualClusterNameConfigMapDataKey = None \<and>
   fst (getVirtualClusterName streamer_no_field world0) = Return []"
proof -
  have miss: "store_empty VirtualClusterInfoConfigMapNS VirtualClusterInfoConfigMapName =
      Inl (Error ''not found'')"
    by (simp add: store_empty_def)
  have cm: "ConfigMap streamer_no_field = Some store_no_field"
    by (simp add: streamer_no_field_def)
  have rec: "store_no_field VirtualClusterInfoConfigMapNS VirtualClusterInfoConfigMapName =
      Inr (ConfigMapPtr (Some \<lparr>Data = [''Other'' \<mapsto> ''x'']\<rparr>))"
    by (simp add: store_no_field_def)
  have lacks: "Data \<lparr>Data = [''Other'' \<mapsto> ''x'']\<rparr> VirtualClusterNameConfigMapDataKey = None"
    by (simp add: VirtualClusterNameConfigMapDataKey_def)
  have a: "fst (getVirtualClusterName streamer200 world0) = Return []"
    using getVirtualClusterName_best_effort [of streamer200 store_empty world0]
      streamer200_fields(7) miss by simp
  have b: "fst (getVirtualClusterName streamer_no_field world0) = Return []"
    using getVirtualClusterName_best_effort [of streamer_no_field store_no_field world0]
      cm rec lacks by simp
  show ?thesis
    using a b miss cm rec lacks streamer200_fields(7) by simp
qed

text \<open>
  C5. The requests \<open>InputStream\<close> hands to the client are determined as follows: none when
  the location is unset, when the request cannot be constructed, or when the call panics
  before sending (nil context, or a panic of the tenant lookup); otherwise exactly one,
  with method GET, the caller's context, and a header with exactly one key, the canonical
  form of "virtualcluster-name", holding exactly the resolved tenant string (also when that
  string is empty).
\<close>

theorem InputStream_outbound_request:
  "map snd (sent (snd (InputStream e s c w))) =
     map snd (sent w) @
     (case Location s of
        None \<Rightarrow> []
      | Some loc \<Rightarrow>
          (case url_Parse e (url_String loc) of
             Inl x \<Rightarrow> []
           | Inr u \<Rightarrow>
               (case c of
                  None \<Rightarrow> []
                | Some c' \<Rightarrow>
                    (case fst (getVirtualClusterName s w) of
                       Panic msg \<Rightarrow> []
                     | Return vcName \<Rightarrow>
                         [\<lparr>Method = ''GET'', Url = u,
                           req_Header =
                             [CanonicalMIMEHeaderKey VirtualClusterNameHeaderKey \<mapsto> [vcName]],
                           Ctx = c'\<rparr>]))))"
  by (rule InputStream_sent)

theorem InputStream_outbound_request_witness:
  "map snd (sent (snd (InputStream env0 streamer404 (Some Background) world0))) =
     [request_tenant] \<and>
   map snd (sent (snd (InputStream env0 streamer200 (Some Background) world0))) =
     [request_no_tenant] \<and>
   Method request_tenant = ''GET'' \<and>
   dom (req_Header request_tenant) = {''Virtualcluster-Name''} \<and>
   Header_Get (req_Header request_tenant) VirtualClusterNameHeaderKey = ''tenant-a'' \<and>
   req_Header request_no_tenant ''Virtualcluster-Name'' = Some [[]]"
  using InputStream_outbound_request [of env0 streamer404 "Some Background" world0]
    InputStream_outbound_request [of env0 streamer200 "Some Background" world0]
  by (simp add: streamer404_fields streamer200_fields env0_fields lookup_tenant lookup_empty
      canonical_tenant_key world0_def request_tenant_def request_no_tenant_def Header_Get_def)


text \<open>
  C6. Whenever \<open>InputStream\<close> returns, a non-nil error comes with a nil stream handle (so a
  handle is returned only with a nil error), and each failure gives a non-nil error and no
  handle: a request that cannot be constructed, a client that fails to deliver a response
  (transport failure, or a redirect the policy rejected), and a validator that rejects the
  response.
\<close>

theorem InputStream_error_no_handle:
  assumes "InputStream e s c w = (Return r, w')"
  shows "(err r \<noteq> None \<longrightarrow> stream r = None) \<and>
         (stream r \<noteq> None \<longrightarrow> err r = None) \<and>
         (\<forall>loc x. Location s = Some loc \<and> NewRequest e ''GET'' (url_String loc) = Inl x \<longrightarrow>
            err r = Some (construct_error (url_String loc) x) \<and> stream r = None) \<and>
         (\<forall>cl req x. sent w' = sent w @ [(cl, req)] \<and> client_Do e cl req = Inl x \<longrightarrow>
            err r = Some x \<and> stream r = None) \<and>
         (\<forall>cl req resp checker x shut.
            sent w' = sent w @ [(cl, req)] \<and> client_Do e cl req = Inr resp \<and>
            ResponseChecker s = Some checker \<and> checker resp = (Some x, shut) \<longrightarrow>
            err r = Some x \<and> stream r = None)"
  using assms
  by (cases rule: InputStream_cases)
    (auto simp: no_stream_def NewRequest_GET dest: getVirtualClusterName_frame)

theorem InputStream_error_no_handle_witness:
  "InputStream env0 streamer404 (Some Background) world0 = (Return rejected404, world404) \<and>
   sent world404 = sent world0 @ [(client404, request_tenant)] \<and>
   client_Do env0 client404 request_tenant = Inr resp404 \<and>
   ResponseChecker streamer404 = Some reject_status \<and>
   reject_status resp404 = (Some (Error ''unexpected status''), False) \<and>
   err rejected404 = Some (Error ''unexpected status'') \<and>
   err rejected404 \<noteq> None \<and> stream rejected404 = None"
proof -
  have sent: "sent world404 = sent world0 @ [(client404, request_tenant)]"
    by (simp add: world404_def world0_def)
  have reply: "client_Do env0 client404 request_tenant = Inr resp404"
    by (rule env0_Do(1))
  have verdict: "reject_status resp404 = (Some (Error ''unexpected status''), False)"
    by (simp add: reject_status_def resp404_def)
  from InputStream_error_no_handle [OF run404]
  have "err rejected404 \<noteq> None \<longrightarrow> stream rejected404 = None"
    and "\<forall>cl req resp checker x shut.
            sent world404 = sent world0 @ [(cl, req)] \<and> client_Do env0 cl req = Inr resp \<and>
            ResponseChecker streamer404 = Some checker \<and> checker resp = (Some x, shut) \<longrightarrow>
            err rejected404 = Some x \<and> stream rejected404 = None"
    by blast+
  with sent reply verdict streamer404_fields(5)
  have "err rejected404 = Some (Error ''unexpected status'') \<and> stream rejected404 = None"
    by blast
  with run404 sent reply verdict streamer404_fields(5) show ?thesis
    by simp
qed

text \<open>
  C7. The default redirect policy \<open>PreventRedirects\<close> returns, for every request and every
  list of previous requests, a non-nil error with the message "redirects forbidden". So
  no redirect hop is ever followed under it. The client of net/http with this policy
  returns after one round trip, the request it was given being the only one it issues;
  a response that asks for a redirect gives an error, which is the policy's error
  whenever the next hop could be built. And \<open>InputStream\<close> with this policy, on a client
  that is net/http's, returns an error and no stream handle when the response to its
  request asks for a redirect.
\<close>

theorem PreventRedirects_forbidden:
  "PreventRedirects req via = Some (Error ''redirects forbidden'') \<and>
   (\<forall>H c rq. CheckRedirect c = Some PreventRedirects \<longrightarrow>
      (\<exists>res. Client_Do H c rq = Some (res, [rq]) \<and>
         (\<forall>resp. cl_Transport c rq = Inr resp \<and> snd (redirectBehavior (Method rq) resp) \<longrightarrow>
            (\<exists>x. res = Inl x) \<and>
            (\<forall>u. Header_Get (resp_Header resp) ''Location'' \<noteq> [] \<and>
                 resolve H (Url rq) (Header_Get (resp_Header resp) ''Location'') = Inr u \<longrightarrow>
                 res = Inl (url_Error (urlErrorOp (Method rq))
                            (Header_Get (resp_Header resp) ''Location'')
                            (Error ''redirects forbidden'')))))) \<and>
   (\<forall>H e s c w r w' cl rq resp.
      net_http H e \<and> RedirectChecker s = Some PreventRedirects \<and>
      InputStream e s c w = (r, w') \<and> sent w' = sent w @ [(cl, rq)] \<and>
      cl_Transport cl rq = Inr resp \<and> snd (redirectBehavior (Method rq) resp) \<longrightarrow>
      (\<exists>x. r = Return \<lparr>stream = None, flush = False, contentType = [], err = Some x\<rparr>))"
proof (intro conjI allI impI)
  show "PreventRedirects req via = Some (Error ''redirects forbidden'')"
    by (simp add: PreventRedirects_def errors_New_def)
next
  fix H :: hops and c :: Client and rq :: Request
  assume "CheckRedirect c = Some PreventRedirects"
  from Client_Do_PreventRedirects [OF this, of H rq]
  show "\<exists>res. Client_Do H c rq = Some (res, [rq]) \<and>
         (\<forall>resp. cl_Transport c rq = Inr resp \<and> snd (redirectBehavior (Method rq) resp) \<longrightarrow>
            (\<exists>x. res = Inl x) \<and>
            (\<forall>u. Header_Get (resp_Header resp) ''Location'' \<noteq> [] \<and>
                 resolve H (Url rq) (Header_Get (resp_Header resp) ''Location'') = Inr u \<longrightarrow>
                 res = Inl (url_Error (urlErrorOp (Method rq))
                            (Header_Get (resp_Header resp) ''Location'')
                            (Error ''redirects forbidden''))))"
    by (auto split: sum.splits)
next
  fix H :: hops and e :: env and s :: LocationStreamer and c :: "ctx option"
    and w w' :: world and r :: "StreamResult outcome" and cl :: Client and rq :: Request
    and resp :: Response
  assume a: "net_http H e \<and> RedirectChecker s = Some PreventRedirects \<and>
      InputStream e s c w = (r, w') \<and> sent w' = sent w @ [(cl, rq)] \<and>
      cl_Transport cl rq = Inr resp \<and> snd (redirectBehavior (Method rq) resp)"
  then have run: "InputStream e s c w = (r, w')" and sent: "sent w' = sent w @ [(cl, rq)]"
    by simp_all
  from InputStream_request_context [OF run sent] a
  have "CheckRedirect cl = Some PreventRedirects" by simp
  from Client_Do_rejects [OF this, of rq resp H] a
  obtain x where "Client_Do H cl rq = Some (Inl x, [rq])"
    by blast
  with a have failed: "client_Do e cl rq = Inl x"
    by (auto simp: net_http_def)
  from run sent failed
  show "\<exists>x. r = Return \<lparr>stream = None, flush = False, contentType = [], err = Some x\<rparr>"
    by (cases rule: InputStream_cases)
      (auto simp: no_stream_def dest: getVirtualClusterName_frame)
qed

theorem PreventRedirects_forbidden_witness:
  "CheckRedirect client302 = Some PreventRedirects \<and>
   cl_Transport client302 request_no_tenant = Inr resp302 \<and>
   snd (redirectBehavior (Method request_no_tenant) resp302) \<and>
   Client_Do hops0 client302 request_no_tenant =
     Some (Inl (url_Error ''Get'' ''http://other.example/y'' (Error ''redirects forbidden'')),
           [request_no_tenant]) \<and>
   net_http hops0 env0 \<and> RedirectChecker streamer302 = Some PreventRedirects \<and>
   InputStream env0 streamer302 (Some Background) world0 = (Return rejected302, world302) \<and>
   sent world302 = sent world0 @ [(client302, request_no_tenant)] \<and>
   err rejected302 =
     Some (url_Error ''Get'' ''http://other.example/y'' (Error ''redirects forbidden'')) \<and>
   stream rejected302 = None"
proof -
  have policy: "CheckRedirect client302 = Some PreventRedirects"
    by (simp add: client302_def)
  have reply: "cl_Transport client302 request_no_tenant = Inr resp302"
    by (simp add: client302_def upstream302_def)
  have asks: "snd (redirectBehavior (Method request_no_tenant) resp302)"
    by (simp add: request_no_tenant_def is_redirect)
  note loc = location302
  have next_hop: "resolve hops0 (Url request_no_tenant) ''http://other.example/y'' =
      Inr (URL ''http://other.example/y'')"
    by (simp add: hops0_def absolute_def)
  have op: "urlErrorOp (Method request_no_tenant) = ''Get''"
    by (simp add: request_no_tenant_def op_GET)
  have sent: "sent world302 = sent world0 @ [(client302, request_no_tenant)]"
    by (simp add: world302_def world0_def)
  from PreventRedirects_forbidden [of request_no_tenant "[]"]
  have client: "\<forall>H c rq. CheckRedirect c = Some PreventRedirects \<longrightarrow>
      (\<exists>res. Client_Do H c rq = Some (res, [rq]) \<and>
         (\<forall>resp. cl_Transport c rq = Inr resp \<and> snd (redirectBehavior (Method rq) resp) \<longrightarrow>
            (\<exists>x. res = Inl x) \<and>
            (\<forall>u. Header_Get (resp_Header resp) ''Location'' \<noteq> [] \<and>
                 resolve H (Url rq) (Header_Get (resp_Header resp) ''Location'') = Inr u \<longrightarrow>
                 res = Inl (url_Error (urlErrorOp (Method rq))
                            (Header_Get (resp_Header resp) ''Location'')
                            (Error ''redirects forbidden'')))))"
    by blast
  from client [rule_format, OF policy, of hops0 request_no_tenant]
  obtain res where both:
    "Client_Do hops0 client302 request_no_tenant = Some (res, [request_no_tenant]) \<and>
     (\<forall>resp. cl_Transport client302 request_no_tenant = Inr resp \<and>
          snd (redirectBehavior (Method request_no_tenant) resp) \<longrightarrow>
            (\<exists>x. res = Inl x) \<and>
            (\<forall>u. Header_Get (resp_Header resp) ''Location'' \<noteq> [] \<and>
                 resolve hops0 (Url request_no_tenant)
                   (Header_Get (resp_Header resp) ''Location'') = Inr u \<longrightarrow>
                 res = Inl (url_Error (urlErrorOp (Method request_no_tenant))
                            (Header_Get (resp_Header resp) ''Location'')
                            (Error ''redirects forbidden''))))" ..
  note res = both [THEN conjunct1] and rejected = both [THEN conjunct2]
  from rejected [rule_format, of resp302] reply asks loc next_hop op
  have "res = Inl (url_Error ''Get'' ''http://other.example/y'' (Error ''redirects forbidden''))"
    by simp
  with res policy reply asks sent run302 env0_net_http streamer302_fields(3) show ?thesis
    by (simp add: rejected302_def)
qed

text \<open>
  C9. If the lookup succeeds but returns an object that is not a ConfigMap (the type
  assertion fails), \<open>getVirtualClusterName\<close> returns the empty string, with no panic, having
  made its one lookup.
\<close>

theorem getVirtualClusterName_not_ConfigMap:
  assumes "ConfigMap s = Some store"
    and "store VirtualClusterInfoConfigMapNS VirtualClusterInfoConfigMapName = Inr obj"
    and "\<forall>p. obj \<noteq> ConfigMapPtr p"
  shows "getVirtualClusterName s w =
           (Return [], w\<lparr>gets := gets w @
                           [(VirtualClusterInfoConfigMapNS, VirtualClusterInfoConfigMapName)]\<rparr>)"
  using assms
  by (cases obj) (simp_all add: getVirtualClusterName_def)

theorem getVirtualClusterName_not_ConfigMap_witness:
  "ConfigMap streamer_secret = Some store_secret \<and>
   store_secret VirtualClusterInfoConfigMapNS VirtualClusterInfoConfigMapName =
     Inr (OtherObject ''Secret'') \<and>
   (\<forall>p. OtherObject ''Secret'' \<noteq> ConfigMapPtr p) \<and>
   getVirtualClusterName streamer_secret world0 =
     (Return [], world0\<lparr>gets := gets world0 @
                      [(VirtualClusterInfoConfigMapNS, VirtualClusterInfoConfigMapName)]\<rparr>)"
proof -
  have cm: "ConfigMap streamer_secret = Some store_secret"
    by (simp add: streamer_secret_def)
  have other: "store_secret VirtualClusterInfoConfigMapNS VirtualClusterInfoConfigMapName =
      Inr (OtherObject ''Secret'')"
    by (simp add: store_secret_def)
  have kind: "\<forall>p. OtherObject ''Secret'' \<noteq> ConfigMapPtr p"
    by simp
  from getVirtualClusterName_not_ConfigMap [OF cm other kind, of world0] show ?thesis
    using cm other by simp
qed

text \<open>
  C10. \<open>DeepCopyObject\<close> panics on every \<open>LocationStreamer\<close>, with the message that it is
  not implemented, and \<open>GetObjectKind\<close> always returns the empty object kind.
\<close>

theorem DeepCopyObject_panics:
  "DeepCopyObject obj = Panic ''rest.LocationStreamer does not implement DeepCopyObject'' \<and>
   GetObjectKind obj = EmptyObjectKind"
  by (simp add: DeepCopyObject_def GetObjectKind_def)


end
